theory Spec2Isabelle
  imports Complex_Main
begin

section \<open>DOMAdvanced: data model\<close>

text \<open>
  The module \<^verbatim>\<open>DOMAdvanced\<close> (src/DOMAdvanced.js, lines 7-216) keeps one mutable
  object, \<^verbatim>\<open>defaults\<close>, and exports asynchronous operations that read the host
  document, the clock, the viewport and the mutation observer. The host is the
  environment of the model: whatever a run of an operation observes is an argument, and
  whatever it does to the host (diagnostics, timers, scroll requests, dispatches,
  callback invocations) is recorded in a list of events.
\<close>

subsection \<open>Configuration\<close>

text \<open>The object \<^verbatim>\<open>defaults\<close> (lines 9-16): six keys, all present.\<close>

record configuration =
  timeout :: int
  pollInterval :: int
  scrollStep :: int
  maxScrollAttempts :: int
  visibleCheck :: bool
  throwErrors :: bool

text \<open>
  A per-call \<^verbatim>\<open>options\<close> object, and the argument of \<^verbatim>\<open>config\<close>: any subset of
  the six keys. A key that is absent is \<open>None\<close>.
\<close>

record options =
  o_timeout :: "int option"
  o_pollInterval :: "int option"
  o_scrollStep :: "int option"
  o_maxScrollAttempts :: "int option"
  o_visibleCheck :: "bool option"
  o_throwErrors :: "bool option"

definition initial_defaults :: configuration where
  "initial_defaults =
     \<lparr>timeout = 10000, pollInterval = 100, scrollStep = 100, maxScrollAttempts = 50,
      visibleCheck = True, throwErrors = False\<rparr>"

definition no_options :: options where
  "no_options =
     \<lparr>o_timeout = None, o_pollInterval = None, o_scrollStep = None,
      o_maxScrollAttempts = None, o_visibleCheck = None, o_throwErrors = None\<rparr>"

fun pick :: "'a \<Rightarrow> 'a option \<Rightarrow> 'a" where
  "pick d None = d"
| "pick d (Some v) = v"

text \<open>
  The object spread \<^verbatim>\<open>{ ...defaults, ...options }\<close> (lines 39, 73, 129, 163, 181): a
  new object holding the keys of the first operand, overwritten by the keys the second
  operand has. \<^verbatim>\<open>Object.assign(defaults, newConfig)\<close> (line 207) computes the same
  keys, and stores them in its first operand.
\<close>

definition spread :: "configuration \<Rightarrow> options \<Rightarrow> configuration" where
  "spread d opts =
     \<lparr>timeout = pick (timeout d) (o_timeout opts),
      pollInterval = pick (pollInterval d) (o_pollInterval opts),
      scrollStep = pick (scrollStep d) (o_scrollStep opts),
      maxScrollAttempts = pick (maxScrollAttempts d) (o_maxScrollAttempts opts),
      visibleCheck = pick (visibleCheck d) (o_visibleCheck opts),
      throwErrors = pick (throwErrors d) (o_throwErrors opts)\<rparr>"

text \<open>
  \<^verbatim>\<open>triggerEvent\<close> hands its merged \<^verbatim>\<open>config\<close> to \<^verbatim>\<open>waitForSelector\<close> as the options
  object (line 131): an options object with every key present.
\<close>

definition as_options :: "configuration \<Rightarrow> options" where
  "as_options c =
     \<lparr>o_timeout = Some (timeout c), o_pollInterval = Some (pollInterval c),
      o_scrollStep = Some (scrollStep c),
      o_maxScrollAttempts = Some (maxScrollAttempts c),
      o_visibleCheck = Some (visibleCheck c), o_throwErrors = Some (throwErrors c)\<rparr>"

subsection \<open>Elements and the document\<close>

text \<open>
  What the module reads of an element: its identity, three computed style properties
  and its rendered size. A handle is \<open>element option\<close>, \<open>None\<close> being
  \<^verbatim>\<open>null\<close>/\<^verbatim>\<open>undefined\<close>.
\<close>

record element =
  ident :: nat
  display :: string
  visibility :: string
  opacity :: string
  offsetWidth :: int
  offsetHeight :: int

text \<open>
  \<^verbatim>\<open>document.querySelector\<close> returns the first matching element or \<^verbatim>\<open>null\<close>, and
  throws a \<^verbatim>\<open>SyntaxError\<close> on a selector it cannot parse. A document is the function
  from selectors to what the call does.
\<close>

datatype query_result = Invalid | Match "element option"

type_synonym document = "string \<Rightarrow> query_result"

definition querySelector :: "document \<Rightarrow> string \<Rightarrow> query_result" where
  "querySelector document selector = document selector"

subsection \<open>Errors, settled promises and host events\<close>

datatype error =
    Timeout string int
  | ElementNotFound string
  | ScrollExhausted nat
  | EventTargetNotFound string
  | SyntaxError string
  | DispatchError string

text \<open>
  The state of the promise an operation returns: fulfilled, rejected, or still pending
  when the observed part of the run ends.
\<close>

datatype 'a outcome = Resolved 'a | Rejected error | Unsettled

datatype event =
    Check string
  | Sleep int
  | Warn error
  | Uncaught error
  | Measure
  | ScrollBy int
  | NextFrame
  | Dispatch string nat
  | Callback element

type_synonym 'a run = "'a outcome \<times> event list"

definition prepend :: "event list \<Rightarrow> 'a run \<Rightarrow> 'a run" where
  "prepend es r = (fst r, es @ snd r)"

text \<open>What an exported operation leaves: its promise, its events, and \<^verbatim>\<open>defaults\<close>.\<close>

record 'a completed =
  outcome :: "'a outcome"
  events :: "event list"
  baseline :: configuration

section \<open>isVisible (lines 19-27)\<close>

datatype accessor =
    GetComputedStyle
  | StyleDisplay
  | StyleVisibility
  | StyleOpacity
  | OffsetWidth
  | OffsetHeight

text \<open>
  A boolean together with the accessors read to compute it. \<^verbatim>\<open>a && b\<close> evaluates
  \<^verbatim>\<open>b\<close> only when \<^verbatim>\<open>a\<close> is true.
\<close>

type_synonym probed = "bool \<times> accessor list"

definition and_then :: "probed \<Rightarrow> probed \<Rightarrow> probed" where
  "and_then a b = (if fst a then (fst b, snd a @ snd b) else (False, snd a))"

fun isVisible_probed :: "element option \<Rightarrow> probed" where
  "isVisible_probed None = (False, [])"
| "isVisible_probed (Some el) =
     and_then (True, [GetComputedStyle])
       (and_then (display el \<noteq> ''none'', [StyleDisplay])
         (and_then (visibility el \<noteq> ''hidden'', [StyleVisibility])
           (and_then (opacity el \<noteq> ''0'', [StyleOpacity])
             (and_then (offsetWidth el > 0, [OffsetWidth])
               (offsetHeight el > 0, [OffsetHeight])))))"

definition isVisible :: "element option \<Rightarrow> bool" where
  "isVisible element = fst (isVisible_probed element)"

definition accessors_read :: "element option \<Rightarrow> accessor list" where
  "accessors_read element = snd (isVisible_probed element)"

section \<open>waitForSelector (lines 38-64)\<close>

text \<open>
  One run of \<^verbatim>\<open>checkSelector\<close> observes the document (line 45) and the clock
  (line 49).
\<close>

record tick =
  doc :: document
  now :: int

text \<open>
  \<^verbatim>\<open>checkSelector\<close> (lines 44-60). \<open>t\<close> is what this run observes, \<open>ts\<close> what the
  runs started by the timer will observe; when \<open>ts\<close> is used up the promise is still
  pending. The first run is called from the promise executor (line 62), where an
  exception rejects the promise; the later ones are timer callbacks, where an exception
  is reported to the host and the promise stays pending.
\<close>

fun checkSelector ::
  "configuration \<Rightarrow> string \<Rightarrow> int \<Rightarrow> bool \<Rightarrow> tick \<Rightarrow> tick list \<Rightarrow> element option run"
where
  "checkSelector cfg selector startTime inExecutor t ts =
     (case querySelector (doc t) selector of
        Invalid \<Rightarrow>
          if inExecutor then (Rejected (SyntaxError selector), [Check selector])
          else (Unsettled, [Check selector, Uncaught (SyntaxError selector)])
      | Match element \<Rightarrow>
          if element \<noteq> None \<and> (\<not> visibleCheck cfg \<or> isVisible element)
          then (Resolved element, [Check selector])
          else if now t - startTime > timeout cfg
          then (if throwErrors cfg
                then (Rejected (Timeout selector (timeout cfg)), [Check selector])
                else (Resolved None,
                      [Check selector, Warn (Timeout selector (timeout cfg))]))
          else (case ts of
                  [] \<Rightarrow> (Unsettled, [Check selector, Sleep (pollInterval cfg)])
                | t' # ts' \<Rightarrow>
                    prepend [Check selector, Sleep (pollInterval cfg)]
                      (checkSelector cfg selector startTime False t' ts')))"

declare checkSelector.simps [simp del]

definition waitForSelector ::
  "configuration \<Rightarrow> string \<Rightarrow> options \<Rightarrow> int \<Rightarrow> tick \<Rightarrow> tick list
     \<Rightarrow> element option completed"
where
  "waitForSelector defaults selector opts startTime t ts =
     (let config = spread defaults opts;
          r = checkSelector config selector startTime True t ts
      in \<lparr>outcome = fst r, events = snd r, baseline = defaults\<rparr>)"

section \<open>scrollToSelector (lines 72-119)\<close>

text \<open>A selector argument is a string or an element handle.\<close>

datatype target = Query string | Handle "element option"

fun describe :: "target \<Rightarrow> string" where
  "describe (Query selector) = selector"
| "describe (Handle h) = ''Elemento proporcionado''"

text \<open>
  What one run of \<^verbatim>\<open>scrollCheck\<close> measures: the bounding rectangle of the element
  and the height of the viewport.
\<close>

record frame =
  rect_top :: real
  rect_bottom :: real
  innerHeight :: real

definition in_viewport :: "frame \<Rightarrow> bool" where
  "in_viewport f = (rect_top f \<ge> 0 \<and> rect_bottom f \<le> innerHeight f)"

text \<open>
  \<^verbatim>\<open>scrollCheck\<close> (lines 89-115). \<open>attempts\<close> is the counter before the increment of
  line 90; \<open>frames k\<close> is what the run with counter \<open>k\<close> measures. The host grants
  every rendering opportunity that is requested.
\<close>

function scrollCheck ::
  "configuration \<Rightarrow> element \<Rightarrow> (nat \<Rightarrow> frame) \<Rightarrow> nat \<Rightarrow> element option run"
where
  "scrollCheck cfg el frames attempts =
     (if in_viewport (frames attempts)
      then (Resolved (Some el), [Measure])
      else if int (attempts + 1) \<ge> maxScrollAttempts cfg
      then (if throwErrors cfg
            then (Rejected (ScrollExhausted (attempts + 1)), [Measure])
            else (Resolved (Some el),
                  [Measure, Warn (ScrollExhausted (attempts + 1))]))
      else prepend
             [Measure,
              ScrollBy (if rect_top (frames attempts) < 0
                        then - scrollStep cfg else scrollStep cfg),
              NextFrame]
             (scrollCheck cfg el frames (attempts + 1)))"
  by pat_completeness auto
termination
  by (relation "measure (\<lambda>(cfg, el, frames, attempts).
        nat (maxScrollAttempts cfg - int attempts))") auto

declare scrollCheck.simps [simp del]

definition scrollToSelector ::
  "configuration \<Rightarrow> target \<Rightarrow> options \<Rightarrow> int \<Rightarrow> tick \<Rightarrow> tick list \<Rightarrow> (nat \<Rightarrow> frame)
     \<Rightarrow> element option completed"
where
  "scrollToSelector defaults selector opts startTime t ts frames =
     (let config = spread defaults opts;
          found = (case selector of
                     Query q \<Rightarrow>
                       waitForSelector defaults q (opts\<lparr>o_visibleCheck := Some False\<rparr>)
                         startTime t ts
                   | Handle h \<Rightarrow>
                       \<lparr>outcome = Resolved h, events = [], baseline = defaults\<rparr>)
      in case outcome found of
           Rejected e \<Rightarrow> found
         | Unsettled \<Rightarrow> found
         | Resolved None \<Rightarrow>
             if throwErrors config
             then found\<lparr>outcome := Rejected (ElementNotFound (describe selector))\<rparr>
             else found\<lparr>outcome := Resolved None,
                        events := events found
                          @ [Warn (ElementNotFound (describe selector))]\<rparr>
         | Resolved (Some el) \<Rightarrow>
             (let r = prepend (events found) (scrollCheck config el frames 0)
              in \<lparr>outcome = fst r, events = snd r, baseline = baseline found\<rparr>))"

section \<open>triggerEvent (lines 128-154)\<close>

text \<open>
  \<open>raises el event\<close> tells whether constructing the \<^verbatim>\<open>MouseEvent\<close> or dispatching
  it at \<open>el\<close> throws in the host.
\<close>

definition triggerEvent ::
  "configuration \<Rightarrow> target \<Rightarrow> string \<Rightarrow> options \<Rightarrow> int \<Rightarrow> tick \<Rightarrow> tick list
     \<Rightarrow> (element \<Rightarrow> string \<Rightarrow> bool) \<Rightarrow> bool completed"
where
  "triggerEvent defaults selector event opts startTime t ts raises =
     (let config = spread defaults opts;
          found = (case selector of
                     Query q \<Rightarrow>
                       waitForSelector defaults q (as_options config) startTime t ts
                   | Handle h \<Rightarrow>
                       \<lparr>outcome = Resolved h, events = [], baseline = defaults\<rparr>)
      in case outcome found of
           Rejected e \<Rightarrow>
             \<lparr>outcome = Rejected e, events = events found, baseline = baseline found\<rparr>
         | Unsettled \<Rightarrow>
             \<lparr>outcome = Unsettled, events = events found, baseline = baseline found\<rparr>
         | Resolved None \<Rightarrow>
             if throwErrors config
             then \<lparr>outcome = Rejected (EventTargetNotFound event),
                   events = events found, baseline = baseline found\<rparr>
             else \<lparr>outcome = Resolved False,
                   events = events found @ [Warn (EventTargetNotFound event)],
                   baseline = baseline found\<rparr>
         | Resolved (Some el) \<Rightarrow>
             if raises el event
             then (if throwErrors config
                   then \<lparr>outcome = Rejected (DispatchError event),
                         events = events found, baseline = baseline found\<rparr>
                   else \<lparr>outcome = Resolved False,
                         events = events found @ [Warn (DispatchError event)],
                         baseline = baseline found\<rparr>)
             else \<lparr>outcome = Resolved True,
                   events = events found @ [Dispatch event (ident el)],
                   baseline = baseline found\<rparr>)"

section \<open>observeSelector (lines 180-197)\<close>

text \<open>
  What happens to an installed \<^verbatim>\<open>MutationObserver\<close>: the host delivers a batch of
  mutations (the document is the one the callback then queries), or the caller calls
  \<^verbatim>\<open>disconnect()\<close> or \<^verbatim>\<open>observe(...)\<close> on the handle it was given. A disconnected
  observer is delivered nothing.
\<close>

datatype host_event = Batch document | Disconnect | Rearm

text \<open>
  The caller's callback receives the element and the observer; all it can do to the
  watcher is disconnect it, and its result here says whether it does.
\<close>

type_synonym callback = "element \<Rightarrow> bool"


text \<open>
  The observer's function (lines 182-187) run over what happens to the observer;
  \<open>installed\<close> is whether the observer is currently observing.
\<close>

fun observer ::
  "configuration \<Rightarrow> string \<Rightarrow> callback \<Rightarrow> bool \<Rightarrow> host_event list \<Rightarrow> event list"
where
  "observer cfg selector cb installed [] = []"
| "observer cfg selector cb installed (Disconnect # hs) =
     observer cfg selector cb False hs"
| "observer cfg selector cb installed (Rearm # hs) =
     observer cfg selector cb True hs"
| "observer cfg selector cb installed (Batch document # hs) =
     (if \<not> installed then observer cfg selector cb False hs
      else (case querySelector document selector of
              Invalid \<Rightarrow>
                Uncaught (SyntaxError selector) # observer cfg selector cb True hs
            | Match element \<Rightarrow>
                (case element of
                   None \<Rightarrow> observer cfg selector cb True hs
                 | Some el \<Rightarrow>
                     if \<not> visibleCheck cfg \<or> isVisible element
                     then Callback el # observer cfg selector cb (\<not> cb el) hs
                     else observer cfg selector cb True hs)))"

definition observeSelector ::
  "configuration \<Rightarrow> string \<Rightarrow> callback \<Rightarrow> options \<Rightarrow> host_event list \<Rightarrow> unit completed"
where
  "observeSelector defaults selector cb opts hs =
     (let config = spread defaults opts
      in \<lparr>outcome = Resolved (),
          events = observer config selector cb True hs,
          baseline = defaults\<rparr>)"

section \<open>config (line 207)\<close>

definition config :: "configuration \<Rightarrow> options \<Rightarrow> configuration completed" where
  "config defaults newConfig =
     \<lparr>outcome = Resolved (spread defaults newConfig), events = [],
      baseline = spread defaults newConfig\<rparr>"

section \<open>Counting events\<close>

fun is_check :: "event \<Rightarrow> bool" where
  "is_check (Check q) = True"
| "is_check e = False"

fun is_adjustment :: "event \<Rightarrow> bool" where
  "is_adjustment (ScrollBy px) = True"
| "is_adjustment e = False"

fun is_measurement :: "event \<Rightarrow> bool" where
  "is_measurement Measure = True"
| "is_measurement e = False"

fun is_dispatch :: "event \<Rightarrow> bool" where
  "is_dispatch (Dispatch ev i) = True"
| "is_dispatch e = False"


fun is_warning :: "event \<Rightarrow> bool" where
  "is_warning (Warn e) = True"
| "is_warning e = False"

definition checks :: "event list \<Rightarrow> nat" where
  "checks es = length (filter is_check es)"

definition adjustments :: "event list \<Rightarrow> nat" where
  "adjustments es = length (filter is_adjustment es)"

definition measurements :: "event list \<Rightarrow> nat" where
  "measurements es = length (filter is_measurement es)"

definition dispatches :: "event list \<Rightarrow> nat" where
  "dispatches es = length (filter is_dispatch es)"


definition warnings :: "event list \<Rightarrow> error list" where
  "warnings es = concat (map (\<lambda>e. case e of Warn err \<Rightarrow> [err] | _ \<Rightarrow> []) es)"

section \<open>Vocabulary of the statements\<close>

text \<open>The element a selector argument stands for, once resolved.\<close>

definition resolves_to ::
  "configuration \<Rightarrow> target \<Rightarrow> options \<Rightarrow> int \<Rightarrow> tick \<Rightarrow> tick list \<Rightarrow> element \<Rightarrow> bool"
where
  "resolves_to d s opts st t ts el =
     (case s of
        Handle h \<Rightarrow> h = Some el
      | Query q \<Rightarrow>
          outcome (waitForSelector d q (opts\<lparr>o_visibleCheck := Some False\<rparr>) st t ts)
            = Resolved (Some el))"





section \<open>A process: a sequence of calls of the exported operations\<close>

datatype call =
    WaitForSelector string options int tick "tick list"
  | ScrollToSelector target options int tick "tick list" "nat \<Rightarrow> frame"
  | TriggerEvent target string options int tick "tick list" "element \<Rightarrow> string \<Rightarrow> bool"
  | ObserveSelector string callback options "host_event list"
  | Config options

fun is_config :: "call \<Rightarrow> bool" where
  "is_config (Config c) = True"
| "is_config c = False"

text \<open>\<^verbatim>\<open>defaults\<close> after one call, and after a sequence of calls.\<close>

fun defaults_after :: "configuration \<Rightarrow> call \<Rightarrow> configuration" where
  "defaults_after d (WaitForSelector q opts st t ts) =
     baseline (waitForSelector d q opts st t ts)"
| "defaults_after d (ScrollToSelector s opts st t ts frames) =
     baseline (scrollToSelector d s opts st t ts frames)"
| "defaults_after d (TriggerEvent s ev opts st t ts raises) =
     baseline (triggerEvent d s ev opts st t ts raises)"
| "defaults_after d (ObserveSelector q cb opts hs) =
     baseline (observeSelector d q cb opts hs)"
| "defaults_after d (Config c) = baseline (config d c)"

fun process :: "configuration \<Rightarrow> call list \<Rightarrow> configuration" where
  "process d [] = d"
| "process d (c # cs) = process (defaults_after d c) cs"

section \<open>Concrete hosts\<close>

definition button :: element where
  "button =
     \<lparr>ident = 1, display = ''block'', visibility = ''visible'', opacity = ''1'',
      offsetWidth = 80, offsetHeight = 24\<rparr>"

definition empty_page :: document where
  "empty_page selector = Match None"

definition button_page :: document where
  "button_page selector =
     (if selector = ''#go'' then Match (Some button)
      else if selector = ''div['' then Invalid
      else Match None)"

definition at_time :: "document \<Rightarrow> int \<Rightarrow> tick" where
  "at_time document ms = \<lparr>doc = document, now = ms\<rparr>"

definition sticky_frames :: "nat \<Rightarrow> frame" where
  "sticky_frames k = \<lparr>rect_top = - 40, rect_bottom = 20, innerHeight = 600\<rparr>"

definition five_attempts :: options where
  "five_attempts = no_options\<lparr>o_maxScrollAttempts := Some 5\<rparr>"

definition throwing :: options where
  "throwing = no_options\<lparr>o_throwErrors := Some True\<rparr>"

definition impatient :: options where
  "impatient = no_options\<lparr>o_timeout := Some 0\<rparr>"

definition impatient_throwing :: options where
  "impatient_throwing = no_options\<lparr>o_timeout := Some 0, o_throwErrors := Some True\<rparr>"

definition ghost :: element where
  "ghost =
     \<lparr>ident = 2, display = ''none'', visibility = ''visible'', opacity = ''1'',
      offsetWidth = 0, offsetHeight = 0\<rparr>"

definition ghost_page :: document where
  "ghost_page selector = (if selector = ''#ghost'' then Match (Some ghost) else Match None)"

definition settled_frames :: "nat \<Rightarrow> frame" where
  "settled_frames k = \<lparr>rect_top = 10, rect_bottom = 50, innerHeight = 600\<rparr>"

definition keeps_watching :: callback where
  "keeps_watching el = False"



definition never_raises :: "element \<Rightarrow> string \<Rightarrow> bool" where
  "never_raises el ev = False"

section \<open>Auxiliary facts\<close>

lemma spread_no_options: "spread d no_options = d"
  by (simp add: spread_def no_options_def)

lemma spread_as_options: "spread d (as_options c) = c"
  by (simp add: spread_def as_options_def)

lemma baseline_waitForSelector: "baseline (waitForSelector d q opts st t ts) = d"
  by (simp add: waitForSelector_def Let_def)

lemma baseline_scrollToSelector:
  "baseline (scrollToSelector d s opts st t ts frames) = d"
  by (cases s)
     (simp_all add: scrollToSelector_def Let_def baseline_waitForSelector
        split: outcome.splits option.splits)

lemma baseline_triggerEvent:
  "baseline (triggerEvent d s ev opts st t ts raises) = d"
  by (cases s)
     (simp_all add: triggerEvent_def Let_def baseline_waitForSelector
        split: outcome.splits option.splits)

lemma baseline_observeSelector: "baseline (observeSelector d q cb opts hs) = d"
  by (simp add: observeSelector_def Let_def)

section \<open>The visibility predicate\<close>

text \<open>
  C5. An element is visible exactly when its computed display is not "none", its
  computed visibility is not "hidden", its computed opacity is not the string "0", and
  its rendered width and height are both greater than zero.
\<close>

theorem isVisible_iff_four_conditions:
  "isVisible (Some el) \<longleftrightarrow>
     display el \<noteq> ''none'' \<and> visibility el \<noteq> ''hidden'' \<and> opacity el \<noteq> ''0''
     \<and> offsetWidth el > 0 \<and> offsetHeight el > 0"
  by (simp add: isVisible_def and_then_def)

text \<open>
  The button is visible, and stops being so as soon as one of the conditions fails.
\<close>

theorem isVisible_iff_four_conditions_witness:
  "isVisible (Some button)
   \<and> \<not> isVisible (Some (button\<lparr>display := ''none''\<rparr>))
   \<and> \<not> isVisible (Some (button\<lparr>visibility := ''hidden''\<rparr>))
   \<and> \<not> isVisible (Some (button\<lparr>opacity := ''0''\<rparr>))
   \<and> \<not> isVisible (Some (button\<lparr>offsetWidth := 0\<rparr>))
   \<and> \<not> isVisible (Some (button\<lparr>offsetHeight := 0\<rparr>))"
  using isVisible_iff_four_conditions [of button]
    isVisible_iff_four_conditions [of "button\<lparr>display := ''none''\<rparr>"]
    isVisible_iff_four_conditions [of "button\<lparr>visibility := ''hidden''\<rparr>"]
    isVisible_iff_four_conditions [of "button\<lparr>opacity := ''0''\<rparr>"]
    isVisible_iff_four_conditions [of "button\<lparr>offsetWidth := 0\<rparr>"]
    isVisible_iff_four_conditions [of "button\<lparr>offsetHeight := 0\<rparr>"]
  by (simp add: button_def)

text \<open>
  C9. Applied to an absent element (null or undefined), isVisible returns false and
  reads no style or geometry accessor.
\<close>

theorem isVisible_absent:
  "isVisible None = False \<and> accessors_read None = []"
  by (simp add: isVisible_def accessors_read_def)

theorem isVisible_absent_witness:
  "\<not> isVisible None \<and> length (accessors_read None) = 0
   \<and> accessors_read (Some button) \<noteq> []"
  using isVisible_absent
  by (simp add: accessors_read_def and_then_def button_def)

section \<open>The configuration baseline\<close>

lemma process_no_config:
  "list_all (\<lambda>c. \<not> is_config c) cs \<Longrightarrow> process d cs = d"
proof (induction cs arbitrary: d)
  case Nil
  then show ?case by simp
next
  case (Cons c cs)
  then show ?case
    by (cases c)
       (simp_all add: baseline_waitForSelector baseline_scrollToSelector
          baseline_triggerEvent baseline_observeSelector)
qed

lemma spread_forced:
  "spread (spread d opts) (no_options\<lparr>o_visibleCheck := Some False\<rparr>)
     = spread d (opts\<lparr>o_visibleCheck := Some False\<rparr>)"
  by (simp add: spread_def no_options_def)

section \<open>Absent element handles\<close>

text \<open>
  C10. scrollToSelector and triggerEvent called with an absent handle (not a string)
  follow the not-found policy at once: with throwErrors they reject; otherwise they emit
  one warning and return the sentinel (null for scrollToSelector, false for
  triggerEvent). Nothing is measured, scrolled or dispatched: the events are exactly the
  warning, or none.
\<close>

theorem absent_handle_policy:
  "scrollToSelector d (Handle None) opts st t ts frames =
     (if throwErrors (spread d opts)
      then \<lparr>outcome = Rejected (ElementNotFound ''Elemento proporcionado''),
            events = [], baseline = d\<rparr>
      else \<lparr>outcome = Resolved None,
            events = [Warn (ElementNotFound ''Elemento proporcionado'')],
            baseline = d\<rparr>)
   \<and> triggerEvent d (Handle None) ev opts st t ts raises =
     (if throwErrors (spread d opts)
      then \<lparr>outcome = Rejected (EventTargetNotFound ev), events = [], baseline = d\<rparr>
      else \<lparr>outcome = Resolved False, events = [Warn (EventTargetNotFound ev)],
            baseline = d\<rparr>)"
  by (simp add: scrollToSelector_def triggerEvent_def Let_def)

theorem absent_handle_policy_witness:
  "outcome (scrollToSelector initial_defaults (Handle None) throwing 0
      (at_time empty_page 0) [] sticky_frames)
     = Rejected (ElementNotFound ''Elemento proporcionado'')
   \<and> scrollToSelector initial_defaults (Handle None) no_options 0
      (at_time empty_page 0) [] sticky_frames
     = \<lparr>outcome = Resolved None,
        events = [Warn (ElementNotFound ''Elemento proporcionado'')],
        baseline = initial_defaults\<rparr>
   \<and> outcome (triggerEvent initial_defaults (Handle None) ''click'' throwing 0
      (at_time empty_page 0) [] never_raises)
     = Rejected (EventTargetNotFound ''click'')
   \<and> triggerEvent initial_defaults (Handle None) ''click'' no_options 0
      (at_time empty_page 0) [] never_raises
     = \<lparr>outcome = Resolved False, events = [Warn (EventTargetNotFound ''click'')],
        baseline = initial_defaults\<rparr>"
  using absent_handle_policy [of initial_defaults throwing 0 "at_time empty_page 0" "[]"
      sticky_frames "''click''" never_raises]
    absent_handle_policy [of initial_defaults no_options 0 "at_time empty_page 0" "[]"
      sticky_frames "''click''" never_raises]
  by (simp add: spread_def initial_defaults_def throwing_def no_options_def)

section \<open>The defaults are read, not written, by the operations\<close>

text \<open>
  C8. A call of waitForSelector, scrollToSelector or triggerEvent with a per-call
  options object leaves the process-wide defaults as they were.
\<close>

theorem defaults_unchanged_by_calls:
  "baseline (waitForSelector d q opts st t ts) = d
   \<and> baseline (scrollToSelector d s opts st t ts frames) = d
   \<and> baseline (triggerEvent d s ev opts st t ts raises) = d"
  by (simp add: baseline_waitForSelector baseline_scrollToSelector baseline_triggerEvent)

theorem defaults_unchanged_by_calls_witness:
  "baseline (waitForSelector initial_defaults ''#go'' throwing 0
       (at_time button_page 0) []) = initial_defaults
   \<and> baseline (scrollToSelector initial_defaults (Query ''#go'') five_attempts 0
       (at_time button_page 0) [] sticky_frames) = initial_defaults
   \<and> baseline (triggerEvent initial_defaults (Query ''#go'') ''click'' throwing 0
       (at_time button_page 0) [] never_raises) = initial_defaults
   \<and> throwErrors (spread initial_defaults throwing) \<noteq> throwErrors initial_defaults"
  using defaults_unchanged_by_calls [of initial_defaults "''#go''" throwing 0
      "at_time button_page 0" "[]" "Query ''#go''" sticky_frames "''click''" never_raises]
    defaults_unchanged_by_calls [of initial_defaults "''#go''" five_attempts 0
      "at_time button_page 0" "[]" "Query ''#go''" sticky_frames "''click''" never_raises]
  by (simp add: spread_def initial_defaults_def throwing_def no_options_def)

section \<open>The effective configuration\<close>

lemma scrollToSelector_merged:
  "scrollToSelector d s opts st t ts frames
     = (scrollToSelector (spread d opts) s no_options st t ts frames)\<lparr>baseline := d\<rparr>"
  by (cases s)
     (simp_all add: scrollToSelector_def waitForSelector_def Let_def spread_no_options
        spread_forced split: outcome.splits option.splits)

lemma triggerEvent_merged:
  "triggerEvent d s ev opts st t ts raises
     = (triggerEvent (spread d opts) s ev no_options st t ts raises)\<lparr>baseline := d\<rparr>"
  by (cases s)
     (simp_all add: triggerEvent_def waitForSelector_def Let_def spread_no_options
        spread_as_options split: outcome.splits option.splits)

text \<open>
  C7. The configuration an operation works with is the key-by-key merge of the defaults
  with the options of the call, the options winning: every key is the option's value
  when the option has the key and the default's otherwise, and a call with defaults
  \<open>d\<close> and options \<open>opts\<close> does what a call with the merged defaults and no options
  does. config merges its argument into the defaults, and the merged defaults stay in
  force through every later call of the other operations.
\<close>

theorem effective_configuration:
  "timeout (spread d opts) = (case o_timeout opts of Some v \<Rightarrow> v | None \<Rightarrow> timeout d)
   \<and> pollInterval (spread d opts)
       = (case o_pollInterval opts of Some v \<Rightarrow> v | None \<Rightarrow> pollInterval d)
   \<and> scrollStep (spread d opts)
       = (case o_scrollStep opts of Some v \<Rightarrow> v | None \<Rightarrow> scrollStep d)
   \<and> maxScrollAttempts (spread d opts)
       = (case o_maxScrollAttempts opts of Some v \<Rightarrow> v | None \<Rightarrow> maxScrollAttempts d)
   \<and> visibleCheck (spread d opts)
       = (case o_visibleCheck opts of Some v \<Rightarrow> v | None \<Rightarrow> visibleCheck d)
   \<and> throwErrors (spread d opts)
       = (case o_throwErrors opts of Some v \<Rightarrow> v | None \<Rightarrow> throwErrors d)
   \<and> waitForSelector d q opts st t ts
       = (waitForSelector (spread d opts) q no_options st t ts)\<lparr>baseline := d\<rparr>
   \<and> scrollToSelector d s opts st t ts frames
       = (scrollToSelector (spread d opts) s no_options st t ts frames)\<lparr>baseline := d\<rparr>
   \<and> triggerEvent d s ev opts st t ts raises
       = (triggerEvent (spread d opts) s ev no_options st t ts raises)\<lparr>baseline := d\<rparr>
   \<and> observeSelector d q cb opts hs
       = (observeSelector (spread d opts) q cb no_options hs)\<lparr>baseline := d\<rparr>
   \<and> baseline (config d c) = spread d c
   \<and> (list_all (\<lambda>k. \<not> is_config k) cs \<longrightarrow> process d (Config c # cs) = spread d c)"
proof -
  have fields:
    "timeout (spread d opts) = (case o_timeout opts of Some v \<Rightarrow> v | None \<Rightarrow> timeout d)"
    "pollInterval (spread d opts)
       = (case o_pollInterval opts of Some v \<Rightarrow> v | None \<Rightarrow> pollInterval d)"
    "scrollStep (spread d opts)
       = (case o_scrollStep opts of Some v \<Rightarrow> v | None \<Rightarrow> scrollStep d)"
    "maxScrollAttempts (spread d opts)
       = (case o_maxScrollAttempts opts of Some v \<Rightarrow> v | None \<Rightarrow> maxScrollAttempts d)"
    "visibleCheck (spread d opts)
       = (case o_visibleCheck opts of Some v \<Rightarrow> v | None \<Rightarrow> visibleCheck d)"
    "throwErrors (spread d opts)
       = (case o_throwErrors opts of Some v \<Rightarrow> v | None \<Rightarrow> throwErrors d)"
    by (simp_all add: spread_def split: option.splits)
  have w: "waitForSelector d q opts st t ts
       = (waitForSelector (spread d opts) q no_options st t ts)\<lparr>baseline := d\<rparr>"
    by (simp add: waitForSelector_def Let_def spread_no_options)
  have s: "scrollToSelector d s opts st t ts frames
       = (scrollToSelector (spread d opts) s no_options st t ts frames)\<lparr>baseline := d\<rparr>"
    by (rule scrollToSelector_merged)
  have e: "triggerEvent d s ev opts st t ts raises
       = (triggerEvent (spread d opts) s ev no_options st t ts raises)\<lparr>baseline := d\<rparr>"
    by (rule triggerEvent_merged)
  have b: "observeSelector d q cb opts hs
       = (observeSelector (spread d opts) q cb no_options hs)\<lparr>baseline := d\<rparr>"
    by (simp add: observeSelector_def Let_def spread_no_options)
  have c: "baseline (config d c) = spread d c"
    by (simp add: config_def)
  have p: "list_all (\<lambda>k. \<not> is_config k) cs \<longrightarrow> process d (Config c # cs) = spread d c"
    by (simp add: process_no_config config_def)
  from fields w s e b c p show ?thesis by blast
qed

theorem effective_configuration_witness:
  "throwErrors (spread initial_defaults throwing)
   \<and> timeout (spread initial_defaults throwing) = 10000
   \<and> baseline (config initial_defaults throwing)
       = initial_defaults\<lparr>throwErrors := True\<rparr>
   \<and> list_all (\<lambda>k. \<not> is_config k)
         [WaitForSelector ''#go'' no_options 0 (at_time button_page 0) [],
          TriggerEvent (Handle None) ''click'' no_options 0 (at_time button_page 0) []
            never_raises]
   \<and> process initial_defaults
         [Config throwing,
          WaitForSelector ''#go'' no_options 0 (at_time button_page 0) [],
          TriggerEvent (Handle None) ''click'' no_options 0 (at_time button_page 0) []
            never_raises]
       = initial_defaults\<lparr>throwErrors := True\<rparr>"
proof -
  note E = effective_configuration [of initial_defaults throwing "''#go''" 0
      "at_time button_page 0" "[]" "Handle None" sticky_frames "''click''" never_raises
      keeps_watching "[]" throwing
      "[WaitForSelector ''#go'' no_options 0 (at_time button_page 0) [],
        TriggerEvent (Handle None) ''click'' no_options 0 (at_time button_page 0) []
          never_raises]"]
  have calls: "list_all (\<lambda>k. \<not> is_config k)
         [WaitForSelector ''#go'' no_options 0 (at_time button_page 0) [],
          TriggerEvent (Handle None) ''click'' no_options 0 (at_time button_page 0) []
            never_raises]"
    by simp
  from E have "throwErrors (spread initial_defaults throwing)
       = (case o_throwErrors throwing of Some v \<Rightarrow> v
          | None \<Rightarrow> throwErrors initial_defaults)"
    by blast
  then have 1: "throwErrors (spread initial_defaults throwing)"
    by (simp add: throwing_def no_options_def)
  from E have "timeout (spread initial_defaults throwing)
       = (case o_timeout throwing of Some v \<Rightarrow> v | None \<Rightarrow> timeout initial_defaults)"
    by blast
  then have 2: "timeout (spread initial_defaults throwing) = 10000"
    by (simp add: throwing_def no_options_def initial_defaults_def)
  have s: "spread initial_defaults throwing = initial_defaults\<lparr>throwErrors := True\<rparr>"
    by (simp add: spread_def initial_defaults_def throwing_def no_options_def)
  from E have 3: "baseline (config initial_defaults throwing)
       = initial_defaults\<lparr>throwErrors := True\<rparr>"
    unfolding s by blast
  from E calls have 4: "process initial_defaults
         [Config throwing,
          WaitForSelector ''#go'' no_options 0 (at_time button_page 0) [],
          TriggerEvent (Handle None) ''click'' no_options 0 (at_time button_page 0) []
            never_raises]
       = initial_defaults\<lparr>throwErrors := True\<rparr>"
    unfolding s by blast
  from 1 2 3 calls 4 show ?thesis by blast
qed

section \<open>Facts about the polling loop\<close>

lemma checkSelector_first_event:
  "\<exists>es. snd (checkSelector cfg q st b t ts) = Check q # es"
  by (subst checkSelector.simps)
     (simp add: prepend_def split: query_result.splits list.splits)

lemma checkSelector_null_not_throwing:
  "fst (checkSelector cfg q st b t ts) = Resolved None \<Longrightarrow> \<not> throwErrors cfg"
proof (induction ts arbitrary: t b)
  case Nil
  then show ?case
    by (subst (asm) checkSelector.simps)
       (auto simp: prepend_def split: query_result.splits if_splits)
next
  case (Cons t' ts)
  from Cons.prems show ?case
    by (subst (asm) checkSelector.simps)
       (auto simp: prepend_def split: query_result.splits if_splits dest: Cons.IH)
qed

lemma checkSelector_no_scrolling:
  "filter is_measurement (snd (checkSelector cfg q st b t ts)) = []
   \<and> filter is_adjustment (snd (checkSelector cfg q st b t ts)) = []"
proof (induction ts arbitrary: t b)
  case Nil
  show ?case
    by (subst checkSelector.simps, subst (2) checkSelector.simps)
       (simp add: prepend_def split: query_result.splits)
next
  case (Cons t' ts)
  show ?case
    by (subst checkSelector.simps, subst (2) checkSelector.simps)
       (simp add: prepend_def Cons.IH split: query_result.splits)
qed

lemma scrollCheck_ignores_visibleCheck:
  "scrollCheck (cfg\<lparr>visibleCheck := v\<rparr>) el frames a = scrollCheck cfg el frames a"
proof (induction cfg el frames a rule: scrollCheck.induct)
  case (1 cfg el frames attempts)
  then show ?case
    by (subst scrollCheck.simps, subst (2) scrollCheck.simps) auto
qed

lemma spread_visibleCheck_update:
  "spread d (opts\<lparr>o_visibleCheck := v\<rparr>)
     = (spread d opts)\<lparr>visibleCheck := pick (visibleCheck d) v\<rparr>"
  by (simp add: spread_def)

section \<open>Check, then sleep\<close>

text \<open>
  C4. waitForSelector runs its first presence check before any suspension: the first
  thing a call does is a check, whatever the configuration. In particular with
  timeout = 0 a check has been made by the time the call gives up.
\<close>

theorem first_check_precedes_sleep:
  "(\<exists>es. events (waitForSelector d q opts st t ts) = Check q # es)
   \<and> (timeout (spread d opts) = 0 \<longrightarrow>
        1 \<le> checks (events (waitForSelector d q opts st t ts)))"
proof -
  obtain es where "snd (checkSelector (spread d opts) q st True t ts) = Check q # es"
    using checkSelector_first_event by blast
  then have "events (waitForSelector d q opts st t ts) = Check q # es"
    by (simp add: waitForSelector_def Let_def)
  then show ?thesis by (simp add: checks_def)
qed


theorem first_check_precedes_sleep_witness:
  "timeout (spread initial_defaults impatient) = 0
   \<and> events (waitForSelector initial_defaults ''#none'' impatient 0
         (at_time empty_page 1) [])
       = [Check ''#none'', Warn (Timeout ''#none'' 0)]
   \<and> 1 \<le> checks (events (waitForSelector initial_defaults ''#none'' impatient 0
         (at_time empty_page 1) []))"
proof -
  have t0: "timeout (spread initial_defaults impatient) = 0"
    by (simp add: spread_def impatient_def no_options_def)
  have ev: "events (waitForSelector initial_defaults ''#none'' impatient 0
         (at_time empty_page 1) [])
       = [Check ''#none'', Warn (Timeout ''#none'' 0)]"
    by (simp add: waitForSelector_def Let_def checkSelector.simps spread_def
          impatient_def no_options_def initial_defaults_def at_time_def empty_page_def
          querySelector_def)
  from t0 first_check_precedes_sleep [of initial_defaults "''#none''" impatient 0
      "at_time empty_page 1" "[]"]
  have "1 \<le> checks (events (waitForSelector initial_defaults ''#none'' impatient 0
         (at_time empty_page 1) []))"
    by blast
  with t0 ev show ?thesis by blast
qed

section \<open>scrollToSelector resolves a query for presence only\<close>

lemma throwErrors_forced:
  "throwErrors (spread d (opts\<lparr>o_visibleCheck := v\<rparr>)) = throwErrors (spread d opts)"
  by (simp add: spread_def)

lemma events_waitForSelector_no_scrolling:
  "measurements (events (waitForSelector d q opts st t ts)) = 0
   \<and> adjustments (events (waitForSelector d q opts st t ts)) = 0"
  by (simp add: waitForSelector_def Let_def measurements_def adjustments_def
        checkSelector_no_scrolling)

lemma waitForSelector_null_not_throwing:
  "outcome (waitForSelector d q opts st t ts) = Resolved None
     \<Longrightarrow> \<not> throwErrors (spread d opts)"
  by (simp add: waitForSelector_def Let_def checkSelector_null_not_throwing)

lemma scrollToSelector_ignores_visibleCheck:
  "scrollToSelector d s (opts\<lparr>o_visibleCheck := v\<rparr>) st t ts frames
     = scrollToSelector d s opts st t ts frames"
  by (cases s)
     (simp_all add: scrollToSelector_def Let_def spread_visibleCheck_update
        scrollCheck_ignores_visibleCheck split: outcome.splits option.splits)

text \<open>
  C6. Called with a query, scrollToSelector first runs waitForSelector on it with
  visibleCheck false, whatever visibleCheck the caller set: its events start with those
  of that run, and changing the caller's visibleCheck changes nothing. When that run
  fails, the failure is passed on without any measurement or scroll: a rejection of the
  resolver (which is how it fails under throwErrors) is the rejection of the call, and a
  null result (which it gives only when throwErrors is false) makes the call warn and
  return null. When that run finds an element, visible or not, the call continues with
  the scroll loop on that element: its result is the loop's, and its events are those of
  the run followed by those of the loop.
\<close>

theorem scroll_resolves_presence_first:
  "(let W = waitForSelector d q (opts\<lparr>o_visibleCheck := Some False\<rparr>) st t ts;
        S = scrollToSelector d (Query q) opts st t ts frames
    in \<not> visibleCheck (spread d (opts\<lparr>o_visibleCheck := Some False\<rparr>))
       \<and> scrollToSelector d (Query q) (opts\<lparr>o_visibleCheck := v\<rparr>) st t ts frames = S
       \<and> (\<exists>es. events S = events W @ es)
       \<and> (\<forall>el. outcome W = Resolved (Some el) \<longrightarrow>
            S = \<lparr>outcome = fst (scrollCheck (spread d opts) el frames 0),
                 events = events W @ snd (scrollCheck (spread d opts) el frames 0),
                 baseline = d\<rparr>)
       \<and> (\<forall>e. outcome W = Rejected e \<longrightarrow> S = W)
       \<and> (outcome W = Unsettled \<longrightarrow> S = W)
       \<and> (outcome W = Resolved None \<longrightarrow>
            \<not> throwErrors (spread d opts)
            \<and> S = W\<lparr>events := events W @ [Warn (ElementNotFound q)]\<rparr>)
       \<and> ((\<forall>el. outcome W \<noteq> Resolved (Some el)) \<longrightarrow>
            measurements (events S) = 0 \<and> adjustments (events S) = 0))"
proof -
  define W where "W = waitForSelector d q (opts\<lparr>o_visibleCheck := Some False\<rparr>) st t ts"
  define S where "S = scrollToSelector d (Query q) opts st t ts frames"
  have S: "S = (case outcome W of
           Rejected e \<Rightarrow> W
         | Unsettled \<Rightarrow> W
         | Resolved None \<Rightarrow>
             if throwErrors (spread d opts)
             then W\<lparr>outcome := Rejected (ElementNotFound q)\<rparr>
             else W\<lparr>outcome := Resolved None,
                    events := events W @ [Warn (ElementNotFound q)]\<rparr>
         | Resolved (Some el) \<Rightarrow>
             \<lparr>outcome = fst (scrollCheck (spread d opts) el frames 0),
              events = events W @ snd (scrollCheck (spread d opts) el frames 0),
              baseline = baseline W\<rparr>)"
    unfolding S_def W_def scrollToSelector_def Let_def prepend_def
    by (simp split: outcome.splits option.splits)
  have bW: "baseline W = d"
    by (simp add: W_def baseline_waitForSelector)
  have quiet: "measurements (events W) = 0" "adjustments (events W) = 0"
    using events_waitForSelector_no_scrolling by (simp_all add: W_def)
  have nt: "outcome W = Resolved None \<Longrightarrow> \<not> throwErrors (spread d opts)"
    using waitForSelector_null_not_throwing [of d q "opts\<lparr>o_visibleCheck := Some False\<rparr>"]
    by (simp add: W_def throwErrors_forced)
  have 1: "\<not> visibleCheck (spread d (opts\<lparr>o_visibleCheck := Some False\<rparr>))"
    by (simp add: spread_def)
  have 2: "scrollToSelector d (Query q) (opts\<lparr>o_visibleCheck := v\<rparr>) st t ts frames = S"
    by (simp add: S_def scrollToSelector_ignores_visibleCheck)
  have 3: "\<exists>es. events S = events W @ es"
    by (simp add: S split: outcome.splits option.splits)
  have 4: "\<forall>e. outcome W = Rejected e \<longrightarrow> S = W"
    by (simp add: S)
  have 5: "outcome W = Resolved None \<longrightarrow>
            \<not> throwErrors (spread d opts)
            \<and> S = W\<lparr>events := events W @ [Warn (ElementNotFound q)]\<rparr>"
    using nt by (auto simp: S)
  have 6: "(\<forall>el. outcome W \<noteq> Resolved (Some el)) \<longrightarrow>
            measurements (events S) = 0 \<and> adjustments (events S) = 0"
    using quiet nt
    by (auto simp: S measurements_def adjustments_def split: outcome.splits option.splits)
  have 7: "\<forall>el. outcome W = Resolved (Some el) \<longrightarrow>
            S = \<lparr>outcome = fst (scrollCheck (spread d opts) el frames 0),
                 events = events W @ snd (scrollCheck (spread d opts) el frames 0),
                 baseline = d\<rparr>"
    by (simp add: S bW)
  have 8: "outcome W = Unsettled \<longrightarrow> S = W"
    by (simp add: S)
  from 1 2 3 4 5 6 7 8 show ?thesis
    unfolding Let_def W_def [symmetric] S_def [symmetric] by blast
qed

theorem scroll_resolves_presence_first_witness:
  "outcome (waitForSelector initial_defaults ''#none''
       (impatient\<lparr>o_visibleCheck := Some False\<rparr>) 0 (at_time empty_page 1) [])
     = Resolved None
   \<and> scrollToSelector initial_defaults (Query ''#none'') impatient 0
       (at_time empty_page 1) [] sticky_frames
     = \<lparr>outcome = Resolved None,
        events = [Check ''#none'', Warn (Timeout ''#none'' 0),
                  Warn (ElementNotFound ''#none'')],
        baseline = initial_defaults\<rparr>
   \<and> outcome (waitForSelector initial_defaults ''#none''
       (impatient_throwing\<lparr>o_visibleCheck := Some False\<rparr>) 0 (at_time empty_page 1) [])
     = Rejected (Timeout ''#none'' 0)
   \<and> scrollToSelector initial_defaults (Query ''#none'') impatient_throwing 0
       (at_time empty_page 1) [] sticky_frames
     = \<lparr>outcome = Rejected (Timeout ''#none'' 0), events = [Check ''#none''],
        baseline = initial_defaults\<rparr>
   \<and> visibleCheck (spread initial_defaults no_options)
   \<and> \<not> isVisible (Some ghost)
   \<and> waitForSelector initial_defaults ''#ghost''
       (no_options\<lparr>o_visibleCheck := Some False\<rparr>) 0 (at_time ghost_page 0) []
     = \<lparr>outcome = Resolved (Some ghost), events = [Check ''#ghost''],
        baseline = initial_defaults\<rparr>
   \<and> scrollToSelector initial_defaults (Query ''#ghost'') no_options 0
       (at_time ghost_page 0) [] settled_frames
     = \<lparr>outcome = Resolved (Some ghost), events = [Check ''#ghost'', Measure],
        baseline = initial_defaults\<rparr>
   \<and> waitForSelector initial_defaults ''#ghost'' no_options 0 (at_time ghost_page 0) []
     = \<lparr>outcome = Unsettled, events = [Check ''#ghost'', Sleep 100],
        baseline = initial_defaults\<rparr>"
proof -
  have w1: "waitForSelector initial_defaults ''#none''
       (impatient\<lparr>o_visibleCheck := Some False\<rparr>) 0 (at_time empty_page 1) []
     = \<lparr>outcome = Resolved None,
        events = [Check ''#none'', Warn (Timeout ''#none'' 0)],
        baseline = initial_defaults\<rparr>"
    by (simp add: waitForSelector_def Let_def checkSelector.simps spread_def
          impatient_def no_options_def initial_defaults_def at_time_def empty_page_def
          querySelector_def)
  have w2: "waitForSelector initial_defaults ''#none''
       (impatient_throwing\<lparr>o_visibleCheck := Some False\<rparr>) 0 (at_time empty_page 1) []
     = \<lparr>outcome = Rejected (Timeout ''#none'' 0), events = [Check ''#none''],
        baseline = initial_defaults\<rparr>"
    by (simp add: waitForSelector_def Let_def checkSelector.simps spread_def
          impatient_throwing_def no_options_def initial_defaults_def at_time_def
          empty_page_def querySelector_def)
  have s1: "scrollToSelector initial_defaults (Query ''#none'') impatient 0
       (at_time empty_page 1) [] sticky_frames
     = \<lparr>outcome = Resolved None,
        events = [Check ''#none'', Warn (Timeout ''#none'' 0),
                  Warn (ElementNotFound ''#none'')],
        baseline = initial_defaults\<rparr>"
    using scroll_resolves_presence_first [where d = initial_defaults and q = "''#none''"
        and opts = impatient and st = 0 and t = "at_time empty_page 1" and ts = "[]"
        and frames = sticky_frames and v = None]
    unfolding Let_def w1 by simp
  have s2: "scrollToSelector initial_defaults (Query ''#none'') impatient_throwing 0
       (at_time empty_page 1) [] sticky_frames
     = \<lparr>outcome = Rejected (Timeout ''#none'' 0), events = [Check ''#none''],
        baseline = initial_defaults\<rparr>"
    using scroll_resolves_presence_first [where d = initial_defaults and q = "''#none''"
        and opts = impatient_throwing and st = 0 and t = "at_time empty_page 1"
        and ts = "[]" and frames = sticky_frames and v = None]
    unfolding Let_def w2 by simp

  have gvc: "visibleCheck (spread initial_defaults no_options)"
    by (simp add: spread_def no_options_def initial_defaults_def)
  have ginv: "\<not> isVisible (Some ghost)"
    by (simp add: isVisible_def and_then_def ghost_def)
  have gw: "waitForSelector initial_defaults ''#ghost''
       (no_options\<lparr>o_visibleCheck := Some False\<rparr>) 0 (at_time ghost_page 0) []
     = \<lparr>outcome = Resolved (Some ghost), events = [Check ''#ghost''],
        baseline = initial_defaults\<rparr>"
    by (simp add: waitForSelector_def Let_def checkSelector.simps spread_def
          no_options_def initial_defaults_def at_time_def ghost_page_def
          querySelector_def)
  have gsc: "scrollCheck (spread initial_defaults no_options) ghost settled_frames 0
     = (Resolved (Some ghost), [Measure])"
    by (simp add: scrollCheck.simps settled_frames_def in_viewport_def)
  have gs: "scrollToSelector initial_defaults (Query ''#ghost'') no_options 0
       (at_time ghost_page 0) [] settled_frames
     = \<lparr>outcome = Resolved (Some ghost), events = [Check ''#ghost'', Measure],
        baseline = initial_defaults\<rparr>"
  proof -
    from scroll_resolves_presence_first [where d = initial_defaults
        and q = "''#ghost''" and opts = no_options and st = 0
        and t = "at_time ghost_page 0" and ts = "[]" and frames = settled_frames
        and v = None]
    have "\<forall>el. outcome (waitForSelector initial_defaults ''#ghost''
              (no_options\<lparr>o_visibleCheck := Some False\<rparr>) 0 (at_time ghost_page 0) [])
            = Resolved (Some el) \<longrightarrow>
          scrollToSelector initial_defaults (Query ''#ghost'') no_options 0
            (at_time ghost_page 0) [] settled_frames
          = \<lparr>outcome = fst (scrollCheck (spread initial_defaults no_options) el
                 settled_frames 0),
             events = events (waitForSelector initial_defaults ''#ghost''
                 (no_options\<lparr>o_visibleCheck := Some False\<rparr>) 0
                 (at_time ghost_page 0) [])
               @ snd (scrollCheck (spread initial_defaults no_options) el
                   settled_frames 0),
             baseline = initial_defaults\<rparr>"
      unfolding Let_def by blast
    then show ?thesis
      by (simp add: gw gsc)
  qed
  have gw': "waitForSelector initial_defaults ''#ghost'' no_options 0
       (at_time ghost_page 0) []
     = \<lparr>outcome = Unsettled, events = [Check ''#ghost'', Sleep 100],
        baseline = initial_defaults\<rparr>"
    by (simp add: waitForSelector_def Let_def checkSelector.simps spread_def
          no_options_def initial_defaults_def at_time_def ghost_page_def
          querySelector_def isVisible_def and_then_def ghost_def)
  from w1 w2 s1 s2 gvc ginv gw gs gw' show ?thesis by simp
qed

section \<open>A selector the host rejects\<close>

text \<open>
  C3. At the default configuration (throwErrors false) a selector that querySelector
  rejects makes the promise of waitForSelector reject with the SyntaxError, with no
  warning and no sentinel; through scrollToSelector and triggerEvent the same rejection
  reaches the caller, and in an installed watcher the error escapes the observer's
  function at every batch.
\<close>

theorem invalid_query_escapes:
  "waitForSelector initial_defaults ''div['' no_options 0 (at_time button_page 0) []
     = \<lparr>outcome = Rejected (SyntaxError ''div[''), events = [Check ''div[''],
        baseline = initial_defaults\<rparr>
   \<and> outcome (scrollToSelector initial_defaults (Query ''div['') no_options 0
        (at_time button_page 0) [] settled_frames) = Rejected (SyntaxError ''div['')
   \<and> outcome (triggerEvent initial_defaults (Query ''div['') ''click'' no_options 0
        (at_time button_page 0) [] never_raises) = Rejected (SyntaxError ''div['')
   \<and> events (observeSelector initial_defaults ''div['' keeps_watching no_options
        [Batch button_page]) = [Uncaught (SyntaxError ''div['')]"
  by (simp add: waitForSelector_def scrollToSelector_def triggerEvent_def
        observeSelector_def Let_def checkSelector.simps spread_def as_options_def
        no_options_def initial_defaults_def at_time_def button_page_def
        querySelector_def)

section \<open>The scroll loop\<close>

lemma scrollCheck_adjustments_le:
  "adjustments (snd (scrollCheck cfg el frames a))
     \<le> nat (maxScrollAttempts cfg - 1 - int a)"
proof (induction cfg el frames a rule: scrollCheck.induct)
  case (1 cfg el frames attempts)
  show ?case
  proof (cases "in_viewport (frames attempts) \<or> int (attempts + 1) \<ge> maxScrollAttempts cfg")
    case True
    then show ?thesis
      by (subst scrollCheck.simps) (auto simp: adjustments_def)
  next
    case False
    with "1.IH" have "adjustments (snd (scrollCheck cfg el frames (attempts + 1)))
       \<le> nat (maxScrollAttempts cfg - 1 - int (attempts + 1))"
      by simp
    with False show ?thesis
      by (subst scrollCheck.simps) (auto simp: adjustments_def prepend_def)
  qed
qed

lemma scrollCheck_never_in_viewport:
  assumes never: "\<forall>k. \<not> in_viewport (frames k)"
    and room: "int a < maxScrollAttempts cfg"
  shows "adjustments (snd (scrollCheck cfg el frames a))
           = nat (maxScrollAttempts cfg - 1 - int a)
         \<and> measurements (snd (scrollCheck cfg el frames a))
           = nat (maxScrollAttempts cfg - int a)
         \<and> warnings (snd (scrollCheck cfg el frames a))
           = (if throwErrors cfg then []
              else [ScrollExhausted (nat (maxScrollAttempts cfg))])
         \<and> fst (scrollCheck cfg el frames a)
           = (if throwErrors cfg
              then Rejected (ScrollExhausted (nat (maxScrollAttempts cfg)))
              else Resolved (Some el))"
  using never room
proof (induction cfg el frames a rule: scrollCheck.induct)
  case (1 cfg el frames attempts)
  from "1.prems" have nv: "\<not> in_viewport (frames attempts)" by simp
  show ?case
  proof (cases "int (attempts + 1) \<ge> maxScrollAttempts cfg")
    case True
    with "1.prems" have "maxScrollAttempts cfg = int attempts + 1" by simp
    with nv show ?thesis
      by (subst scrollCheck.simps, subst (2) scrollCheck.simps,
          subst (3) scrollCheck.simps, subst (4) scrollCheck.simps)
         (simp add: adjustments_def measurements_def warnings_def nat_add_distrib)
  next
    case False
    then have "int (attempts + 1) < maxScrollAttempts cfg" by simp
    with "1.IH" "1.prems" nv False
    have IH: "adjustments (snd (scrollCheck cfg el frames (attempts + 1)))
           = nat (maxScrollAttempts cfg - 1 - int (attempts + 1))
         \<and> measurements (snd (scrollCheck cfg el frames (attempts + 1)))
           = nat (maxScrollAttempts cfg - int (attempts + 1))
         \<and> warnings (snd (scrollCheck cfg el frames (attempts + 1)))
           = (if throwErrors cfg then []
              else [ScrollExhausted (nat (maxScrollAttempts cfg))])
         \<and> fst (scrollCheck cfg el frames (attempts + 1))
           = (if throwErrors cfg
              then Rejected (ScrollExhausted (nat (maxScrollAttempts cfg)))
              else Resolved (Some el))"
      by simp
    from False nv have unfold: "scrollCheck cfg el frames attempts
       = prepend
             [Measure,
              ScrollBy (if rect_top (frames attempts) < 0
                        then - scrollStep cfg else scrollStep cfg),
              NextFrame]
             (scrollCheck cfg el frames (attempts + 1))"
      by (subst scrollCheck.simps) simp
    from False have ar: "nat (maxScrollAttempts cfg - 1 - int attempts)
        = Suc (nat (maxScrollAttempts cfg - 1 - int (attempts + 1)))"
      "nat (maxScrollAttempts cfg - int attempts)
        = Suc (nat (maxScrollAttempts cfg - int (attempts + 1)))"
      by simp_all
    show ?thesis
      unfolding unfold ar
      using IH by (simp add: prepend_def adjustments_def measurements_def warnings_def)
  qed
qed


lemma checkSelector_found_quiet:
  "fst (checkSelector cfg q st b t ts) = Resolved (Some el)
     \<Longrightarrow> warnings (snd (checkSelector cfg q st b t ts)) = []"
proof (induction ts arbitrary: t b)
  case Nil
  then show ?case
    by (subst checkSelector.simps, subst (asm) checkSelector.simps)
       (auto simp: prepend_def warnings_def split: query_result.splits if_splits)
next
  case (Cons t' ts)
  from Cons.prems show ?case
    by (subst checkSelector.simps, subst (asm) checkSelector.simps)
       (auto simp: prepend_def warnings_def split: query_result.splits if_splits
          dest: Cons.IH [unfolded warnings_def])
qed

lemma scrollToSelector_resolved:
  assumes "resolves_to d s opts st t ts el"
  shows "outcome (scrollToSelector d s opts st t ts frames)
           = fst (scrollCheck (spread d opts) el frames 0)
         \<and> adjustments (events (scrollToSelector d s opts st t ts frames))
           = adjustments (snd (scrollCheck (spread d opts) el frames 0))
         \<and> measurements (events (scrollToSelector d s opts st t ts frames))
           = measurements (snd (scrollCheck (spread d opts) el frames 0))
         \<and> warnings (events (scrollToSelector d s opts st t ts frames))
           = warnings (snd (scrollCheck (spread d opts) el frames 0))"
proof (cases s)
  case (Handle h)
  with assms show ?thesis
    by (simp add: resolves_to_def scrollToSelector_def Let_def prepend_def)
next
  case (Query q)
  define W where "W = waitForSelector d q (opts\<lparr>o_visibleCheck := Some False\<rparr>) st t ts"
  from assms Query have out: "outcome W = Resolved (Some el)"
    by (simp add: resolves_to_def W_def)
  have quiet: "measurements (events W) = 0" "adjustments (events W) = 0"
    using events_waitForSelector_no_scrolling by (simp_all add: W_def)
  from out have "warnings (events W) = []"
    by (simp add: W_def waitForSelector_def Let_def checkSelector_found_quiet)
  with out quiet show ?thesis
    unfolding Query scrollToSelector_def Let_def prepend_def target.case
      W_def [symmetric]
    by (simp add: adjustments_def measurements_def warnings_def)
qed

lemma scrollToSelector_adjustments_le:
  "adjustments (events (scrollToSelector d s opts st t ts frames))
     \<le> nat (maxScrollAttempts (spread d opts) - 1)"
proof -
  have sc: "\<And>el. adjustments (snd (scrollCheck (spread d opts) el frames 0))
              \<le> nat (maxScrollAttempts (spread d opts) - 1)"
    using scrollCheck_adjustments_le [of "spread d opts" _ frames 0] by simp
  show ?thesis
  proof (cases s)
    case (Handle h)
    then show ?thesis
      using sc
      by (cases h)
         (simp_all add: scrollToSelector_def Let_def prepend_def adjustments_def)
  next
    case (Query q)
    define W where "W = waitForSelector d q (opts\<lparr>o_visibleCheck := Some False\<rparr>) st t ts"
    have quiet: "adjustments (events W) = 0"
      using events_waitForSelector_no_scrolling by (simp add: W_def)
    show ?thesis
      unfolding Query scrollToSelector_def Let_def prepend_def target.case
        W_def [symmetric]
      using sc quiet
      by (auto simp: adjustments_def split: outcome.splits option.splits)
  qed
qed

text \<open>
  C2 (as amended). With maxScrollAttempts = N \<ge> 0, scrollToSelector issues at most N
  scroll adjustments before it concludes. The counter of attempts counts measurements,
  and the measurement that brings it to N ends the loop before any scroll: when the
  element never lies within the viewport, N = 5 and throwErrors is false, the call
  measures 5 times, issues exactly 4 adjustments, emits one warning and returns the
  element, not a failure.
\<close>

theorem scroll_adjustments_bounded:
  "(0 \<le> maxScrollAttempts (spread d opts) \<longrightarrow>
      adjustments (events (scrollToSelector d s opts st t ts frames))
        \<le> nat (maxScrollAttempts (spread d opts)))
   \<and> ((\<forall>k. \<not> in_viewport (frames k)) \<and> resolves_to d s opts st t ts el
        \<and> maxScrollAttempts (spread d opts) = 5 \<and> \<not> throwErrors (spread d opts) \<longrightarrow>
      outcome (scrollToSelector d s opts st t ts frames) = Resolved (Some el)
      \<and> measurements (events (scrollToSelector d s opts st t ts frames)) = 5
      \<and> adjustments (events (scrollToSelector d s opts st t ts frames)) = 4
      \<and> warnings (events (scrollToSelector d s opts st t ts frames))
          = [ScrollExhausted 5])"
proof -
  have bound: "0 \<le> maxScrollAttempts (spread d opts) \<longrightarrow>
      adjustments (events (scrollToSelector d s opts st t ts frames))
        \<le> nat (maxScrollAttempts (spread d opts))"
    using scrollToSelector_adjustments_le [of d s opts st t ts frames] by auto
  have five: "outcome (scrollToSelector d s opts st t ts frames) = Resolved (Some el)
      \<and> measurements (events (scrollToSelector d s opts st t ts frames)) = 5
      \<and> adjustments (events (scrollToSelector d s opts st t ts frames)) = 4
      \<and> warnings (events (scrollToSelector d s opts st t ts frames))
          = [ScrollExhausted 5]"
    if never: "\<forall>k. \<not> in_viewport (frames k)"
      and res: "resolves_to d s opts st t ts el"
      and n: "maxScrollAttempts (spread d opts) = 5"
      and quietly: "\<not> throwErrors (spread d opts)"
  proof -
    from n have room: "int 0 < maxScrollAttempts (spread d opts)" by simp
    from scrollCheck_never_in_viewport [OF never room, of el] n quietly
    have "adjustments (snd (scrollCheck (spread d opts) el frames 0)) = 4
        \<and> measurements (snd (scrollCheck (spread d opts) el frames 0)) = 5
        \<and> warnings (snd (scrollCheck (spread d opts) el frames 0)) = [ScrollExhausted 5]
        \<and> fst (scrollCheck (spread d opts) el frames 0) = Resolved (Some el)"
      by simp
    with scrollToSelector_resolved [OF res, of frames] show ?thesis by simp
  qed
  from bound five show ?thesis by blast
qed

text \<open>
  C2 as stated fails: a sticky element, maxScrollAttempts = 5 and throwErrors false give
  4 adjustments, not 5.
\<close>

theorem five_adjustments_counterexample:
  "maxScrollAttempts (spread initial_defaults five_attempts) = 5
   \<and> \<not> throwErrors (spread initial_defaults five_attempts)
   \<and> outcome (scrollToSelector initial_defaults (Handle (Some button)) five_attempts 0
        (at_time button_page 0) [] sticky_frames) = Resolved (Some button)
   \<and> adjustments (events (scrollToSelector initial_defaults (Handle (Some button))
        five_attempts 0 (at_time button_page 0) [] sticky_frames)) = 4
   \<and> adjustments (events (scrollToSelector initial_defaults (Handle (Some button))
        five_attempts 0 (at_time button_page 0) [] sticky_frames)) \<noteq> 5"
  by (simp add: scrollToSelector_def Let_def scrollCheck.simps prepend_def
        adjustments_def spread_def initial_defaults_def five_attempts_def
        no_options_def sticky_frames_def in_viewport_def)


theorem scroll_adjustments_bounded_witness:
  "0 \<le> maxScrollAttempts (spread initial_defaults five_attempts)
   \<and> (\<forall>k. \<not> in_viewport (sticky_frames k))
   \<and> resolves_to initial_defaults (Query ''#go'') five_attempts 0
        (at_time button_page 0) [] button
   \<and> maxScrollAttempts (spread initial_defaults five_attempts) = 5
   \<and> \<not> throwErrors (spread initial_defaults five_attempts)
   \<and> adjustments (events (scrollToSelector initial_defaults (Query ''#go'')
        five_attempts 0 (at_time button_page 0) [] sticky_frames)) \<le> 5
   \<and> outcome (scrollToSelector initial_defaults (Query ''#go'') five_attempts 0
        (at_time button_page 0) [] sticky_frames) = Resolved (Some button)
   \<and> measurements (events (scrollToSelector initial_defaults (Query ''#go'')
        five_attempts 0 (at_time button_page 0) [] sticky_frames)) = 5
   \<and> adjustments (events (scrollToSelector initial_defaults (Query ''#go'')
        five_attempts 0 (at_time button_page 0) [] sticky_frames)) = 4
   \<and> warnings (events (scrollToSelector initial_defaults (Query ''#go'')
        five_attempts 0 (at_time button_page 0) [] sticky_frames)) = [ScrollExhausted 5]"
proof -
  have n: "maxScrollAttempts (spread initial_defaults five_attempts) = 5"
    by (simp add: spread_def five_attempts_def no_options_def)
  have q: "\<not> throwErrors (spread initial_defaults five_attempts)"
    by (simp add: spread_def five_attempts_def no_options_def initial_defaults_def)
  have never: "\<forall>k. \<not> in_viewport (sticky_frames k)"
    by (simp add: sticky_frames_def in_viewport_def)
  have res: "resolves_to initial_defaults (Query ''#go'') five_attempts 0
        (at_time button_page 0) [] button"
    by (simp add: resolves_to_def waitForSelector_def Let_def checkSelector.simps
          querySelector_def at_time_def button_page_def spread_def five_attempts_def
          no_options_def initial_defaults_def)
  note T = scroll_adjustments_bounded [where d = initial_defaults
      and s = "Query ''#go''" and opts = five_attempts and st = 0
      and t = "at_time button_page 0" and ts = "[]" and frames = sticky_frames
      and el = button]
  from T n have le: "adjustments (events (scrollToSelector initial_defaults
        (Query ''#go'') five_attempts 0 (at_time button_page 0) [] sticky_frames)) \<le> 5"
    by simp
  from T never res n q
  have "outcome (scrollToSelector initial_defaults (Query ''#go'') five_attempts 0
        (at_time button_page 0) [] sticky_frames) = Resolved (Some button)
   \<and> measurements (events (scrollToSelector initial_defaults (Query ''#go'')
        five_attempts 0 (at_time button_page 0) [] sticky_frames)) = 5
   \<and> adjustments (events (scrollToSelector initial_defaults (Query ''#go'')
        five_attempts 0 (at_time button_page 0) [] sticky_frames)) = 4
   \<and> warnings (events (scrollToSelector initial_defaults (Query ''#go'')
        five_attempts 0 (at_time button_page 0) [] sticky_frames)) = [ScrollExhausted 5]"
    by blast
  with n q never res le show ?thesis by simp
qed

section \<open>The mutation watcher\<close>

















end
